theory Spec2Isabelle
  imports Main "HOL-Library.Word"
begin

section \<open>The Noise XX handshake driver (src/handshake.ts)\<close>

text \<open>
  The class \<open>Handshake\<close> sequences the three wire stages of the XX pattern
  (\<open>propose\<close>, \<open>exchange\<close>, \<open>finish\<close>) and selects the cipher state for
  \<open>encrypt\<close> and \<open>decrypt\<close>. Everything it calls lives in other modules:
  the XX state machine (\<open>./xx\<close>), the payload helpers (\<open>./utils\<close>) and the
  length-prefixed connection (\<open>./noise\<close>). Those collaborators are parameters of
  the model: records of functions, one field per method the driver calls. A
  collaborator that reads or writes mutable state takes that state and returns it
  together with either the \<open>Error\<close> it threw or its result.
\<close>

subsection \<open>Data\<close>

text \<open>A \<open>Buffer\<close> is a sequence of octets; \<open>Buffer.alloc(0)\<close> is \<open>[]\<close>.\<close>

type_synonym bytes = "8 word list"

text \<open>Objects of the XX module are held by reference.\<close>

type_synonym sref = nat
type_synonym cref = nat

record KeyPair =
  publicKey :: bytes
  privateKey :: bytes

datatype handshakeType = XX

text \<open>A thrown JavaScript \<open>Error\<close>, identified by its message.\<close>

datatype error = Error string

text \<open>
  A \<open>NoiseSession\<close>: the two optional cipher-state references that \<open>getCS\<close>
  reads, and the rest of the session (\<open>hs\<close>), which the driver never looks at.
\<close>

record 'hs NoiseSession =
  hs :: 'hs
  cs1 :: "cref option"
  cs2 :: "cref option"

text \<open>The objects reachable from the XX module: sessions and cipher states.\<close>

record ('hs, 'cs) xheap =
  sessions :: "sref \<Rightarrow> 'hs NoiseSession"
  ciphers :: "cref \<Rightarrow> 'cs"

text \<open>
  \<open>XXHandshake\<close> (\<open>./xx\<close>). The session methods may update any session or
  cipher state; the AEAD methods are handed one cipher state and may update only
  that object.
\<close>

record ('hs, 'cs, 'mb) XXHandshake =
  initSession :: "bool \<Rightarrow> bytes \<Rightarrow> KeyPair \<Rightarrow> bytes \<Rightarrow> ('hs, 'cs) xheap
                    \<Rightarrow> ('hs, 'cs) xheap \<times> (error + sref)"
  sendMessage :: "sref \<Rightarrow> bytes \<Rightarrow> ('hs, 'cs) xheap \<Rightarrow> ('hs, 'cs) xheap \<times> (error + 'mb)"
  recvMessage :: "sref \<Rightarrow> 'mb \<Rightarrow> ('hs, 'cs) xheap \<Rightarrow> ('hs, 'cs) xheap \<times> (error + bytes)"
  encryptWithAd :: "'cs \<Rightarrow> bytes \<Rightarrow> bytes \<Rightarrow> 'cs \<times> (error + bytes)"
  decryptWithAd :: "'cs \<Rightarrow> bytes \<Rightarrow> bytes \<Rightarrow> 'cs \<times> (error + bytes)"

text \<open>\<open>WrappedConnection\<close> (\<open>./noise\<close>) over a transport state \<open>'t\<close>.\<close>

record 't WrappedConnection =
  readLP :: "'t \<Rightarrow> 't \<times> (error + bytes)"
  writeLP :: "bytes \<Rightarrow> 't \<Rightarrow> 't \<times> (error + unit)"

text \<open>The pure helpers imported from \<open>./utils\<close>.\<close>

record 'mb utils =
  signPayload :: "bytes \<Rightarrow> bytes \<Rightarrow> bytes"
  getHandshakePayload :: "bytes \<Rightarrow> bytes"
  createHandshakePayload :: "bytes \<Rightarrow> bytes \<Rightarrow> bytes option \<Rightarrow> bytes option \<Rightarrow> bytes"
  encodeMessageBuffer :: "'mb \<Rightarrow> bytes"
  decodeMessageBuffer :: "bytes \<Rightarrow> 'mb"

text \<open>The fields of the class, as the constructor assigns them.\<close>

record ('hs, 'cs, 'mb, 't) Handshake =
  isInitiator :: bool
  type :: handshakeType
  remotePublicKey :: bytes
  prologue :: bytes
  staticKeys :: KeyPair
  connection :: "'t WrappedConnection"
  xx :: "('hs, 'cs, 'mb) XXHandshake"

text \<open>
  The calls a method makes on its collaborators, in order, with their arguments:
  the observable behaviour of a stage.
\<close>

datatype 'mb call =
    InitSession bool bytes KeyPair bytes
  | SignPayload bytes bytes
  | CreateHandshakePayload bytes bytes "bytes option" "bytes option"
  | SendMessage sref bytes
  | RecvMessage sref 'mb
  | EncryptWithAd cref bytes bytes
  | DecryptWithAd cref bytes bytes
  | ReadLP
  | WriteLP bytes
  | Logger string

text \<open>
  The state a method runs in: the \<open>Handshake\<close> object itself (\<open>this\<close>), the
  heap of the XX module, the state of the transport behind \<open>this.connection\<close>,
  and the calls made so far.
\<close>

record ('hs, 'cs, 'mb, 't) world =
  this :: "('hs, 'cs, 'mb, 't) Handshake"
  heap :: "('hs, 'cs) xheap"
  wire :: 't
  calls :: "'mb call list"

text \<open>A method body: it runs in a world and either throws or returns a value.\<close>

type_synonym ('a, 'w) prog = "'w \<Rightarrow> 'w \<times> (error + 'a)"

definition ret :: "'a \<Rightarrow> ('a, 'w) prog" where
  "ret x = (\<lambda>w. (w, Inr x))"

definition throw :: "error \<Rightarrow> ('a, 'w) prog" where
  "throw e = (\<lambda>w. (w, Inl e))"

text \<open>Sequencing; a throw (or a rejected \<open>await\<close>) skips the rest.\<close>

definition bindP :: "('a, 'w) prog \<Rightarrow> ('a \<Rightarrow> ('b, 'w) prog) \<Rightarrow> ('b, 'w) prog" where
  "bindP m f = (\<lambda>w. case m w of (w', Inl e) \<Rightarrow> (w', Inl e) | (w', Inr x) \<Rightarrow> f x w')"

definition emit :: "'mb call \<Rightarrow> (unit, ('hs, 'cs, 'mb, 't) world) prog" where
  "emit c = (\<lambda>w. (w\<lparr>calls := calls w @ [c]\<rparr>, Inr ()))"

subsection \<open>The constructor\<close>

text \<open>
  \<open>this.xx = handshake || new XXHandshake()\<close>: the injected XX implementation
  when one is given, a fresh default one (\<open>dflt\<close>) otherwise.
\<close>

definition new_Handshake ::
  "('hs, 'cs, 'mb) XXHandshake \<Rightarrow> handshakeType \<Rightarrow> bool \<Rightarrow> bytes \<Rightarrow> bytes \<Rightarrow> KeyPair
    \<Rightarrow> 't WrappedConnection \<Rightarrow> ('hs, 'cs, 'mb) XXHandshake option
    \<Rightarrow> ('hs, 'cs, 'mb, 't) Handshake" where
  "new_Handshake dflt ty i rpk pro ks conn handshake =
     \<lparr>isInitiator = i, type = ty, remotePublicKey = rpk, prologue = pro, staticKeys = ks,
      connection = conn,
      xx = (case handshake of Some x \<Rightarrow> x | None \<Rightarrow> dflt)\<rparr>"

subsection \<open>Calls on the collaborators\<close>

text \<open>\<open>this.xx.initSession(...)\<close>, \<open>this.xx.sendMessage(...)\<close>, \<open>this.xx.recvMessage(...)\<close>.\<close>

definition this_xx_initSession ::
  "bool \<Rightarrow> bytes \<Rightarrow> KeyPair \<Rightarrow> bytes \<Rightarrow> (sref, ('hs, 'cs, 'mb, 't) world) prog" where
  "this_xx_initSession i pro ks rpk = (\<lambda>w.
     case initSession (xx (this w)) i pro ks rpk (heap w) of
       (hp, r) \<Rightarrow> (w\<lparr>heap := hp, calls := calls w @ [InitSession i pro ks rpk]\<rparr>, r))"

definition this_xx_sendMessage ::
  "sref \<Rightarrow> bytes \<Rightarrow> ('mb, ('hs, 'cs, 'mb, 't) world) prog" where
  "this_xx_sendMessage session message = (\<lambda>w.
     case sendMessage (xx (this w)) session message (heap w) of
       (hp, r) \<Rightarrow> (w\<lparr>heap := hp, calls := calls w @ [SendMessage session message]\<rparr>, r))"

definition this_xx_recvMessage ::
  "sref \<Rightarrow> 'mb \<Rightarrow> (bytes, ('hs, 'cs, 'mb, 't) world) prog" where
  "this_xx_recvMessage session message = (\<lambda>w.
     case recvMessage (xx (this w)) session message (heap w) of
       (hp, r) \<Rightarrow> (w\<lparr>heap := hp, calls := calls w @ [RecvMessage session message]\<rparr>, r))"

text \<open>
  \<open>this.xx.encryptWithAd(cs, ad, plaintext)\<close> and its mirror: the cipher state
  object \<open>cs\<close> is updated in place.
\<close>

definition this_xx_encryptWithAd ::
  "cref \<Rightarrow> bytes \<Rightarrow> bytes \<Rightarrow> (bytes, ('hs, 'cs, 'mb, 't) world) prog" where
  "this_xx_encryptWithAd cs ad plaintext = (\<lambda>w.
     case encryptWithAd (xx (this w)) (ciphers (heap w) cs) ad plaintext of
       (c, r) \<Rightarrow> (w\<lparr>heap := (heap w)\<lparr>ciphers := (ciphers (heap w))(cs := c)\<rparr>,
                    calls := calls w @ [EncryptWithAd cs ad plaintext]\<rparr>, r))"

definition this_xx_decryptWithAd ::
  "cref \<Rightarrow> bytes \<Rightarrow> bytes \<Rightarrow> (bytes, ('hs, 'cs, 'mb, 't) world) prog" where
  "this_xx_decryptWithAd cs ad ciphertext = (\<lambda>w.
     case decryptWithAd (xx (this w)) (ciphers (heap w) cs) ad ciphertext of
       (c, r) \<Rightarrow> (w\<lparr>heap := (heap w)\<lparr>ciphers := (ciphers (heap w))(cs := c)\<rparr>,
                    calls := calls w @ [DecryptWithAd cs ad ciphertext]\<rparr>, r))"

text \<open>
  \<open>(await this.connection.readLP()).slice()\<close> (the slice copies the frame into a
  \<open>Buffer\<close>) and \<open>this.connection.writeLP(...)\<close>.
\<close>

definition this_connection_readLP :: "(bytes, ('hs, 'cs, 'mb, 't) world) prog" where
  "this_connection_readLP = (\<lambda>w.
     case readLP (connection (this w)) (wire w) of
       (t, r) \<Rightarrow> (w\<lparr>wire := t, calls := calls w @ [ReadLP]\<rparr>, r))"

definition this_connection_writeLP :: "bytes \<Rightarrow> (unit, ('hs, 'cs, 'mb, 't) world) prog" where
  "this_connection_writeLP b = (\<lambda>w.
     case writeLP (connection (this w)) b (wire w) of
       (t, r) \<Rightarrow> (w\<lparr>wire := t, calls := calls w @ [WriteLP b]\<rparr>, r))"

text \<open>The helpers whose arguments matter to the protocol leave a record of the call.\<close>

definition call_signPayload ::
  "'mb utils \<Rightarrow> bytes \<Rightarrow> bytes \<Rightarrow> (bytes, ('hs, 'cs, 'mb, 't) world) prog" where
  "call_signPayload u key payload =
     bindP (emit (SignPayload key payload)) (\<lambda>_. ret (signPayload u key payload))"

definition call_createHandshakePayload ::
  "'mb utils \<Rightarrow> bytes \<Rightarrow> bytes \<Rightarrow> bytes option \<Rightarrow> bytes option
    \<Rightarrow> (bytes, ('hs, 'cs, 'mb, 't) world) prog" where
  "call_createHandshakePayload u k s early pk =
     bindP (emit (CreateHandshakePayload k s early pk))
       (\<lambda>_. ret (createHandshakePayload u k s early pk))"

definition logger :: "string \<Rightarrow> (unit, ('hs, 'cs, 'mb, 't) world) prog" where
  "logger msg = emit (Logger msg)"

subsection \<open>The three stages\<close>

text \<open>
  No statement of a method assigns to a field of \<open>this\<close>, so each stage reads
  the object once, on entry (\<open>self\<close>).

  Stage 0. \<open>earlyData\<close> is optional: \<open>None\<close> when the argument is absent.
\<close>

definition propose ::
  "'mb utils \<Rightarrow> bytes option \<Rightarrow> (sref, ('hs, 'cs, 'mb, 't) world) prog" where
  "propose u earlyData = (\<lambda>w0. (
     let self = this w0 in
     bindP (this_xx_initSession (isInitiator self) (prologue self) (staticKeys self)
              (remotePublicKey self)) (\<lambda>ns.
     bindP (if isInitiator self then
              bindP (call_signPayload u (privateKey (staticKeys self))
                       (getHandshakePayload u (publicKey (staticKeys self)))) (\<lambda>signedPayload.
              bindP (call_createHandshakePayload u (publicKey (staticKeys self)) signedPayload
                       earlyData (Some (privateKey (staticKeys self)))) (\<lambda>handshakePayload.
              bindP (this_xx_sendMessage ns handshakePayload) (\<lambda>messageBuffer.
              bindP (this_connection_writeLP (encodeMessageBuffer u messageBuffer)) (\<lambda>_.
              logger ''Stage 0 - Initiator finished proposing''))))
            else
              bindP this_connection_readLP (\<lambda>receivedMessageBuffer.
              bindP (this_xx_recvMessage ns (decodeMessageBuffer u receivedMessageBuffer))
                (\<lambda>plaintext.
              logger ''Stage 0 - Responder received proposed message.''))) (\<lambda>_.
     ret ns))) w0)"

text \<open>Stage 1.\<close>

definition exchange ::
  "'mb utils \<Rightarrow> sref \<Rightarrow> (unit, ('hs, 'cs, 'mb, 't) world) prog" where
  "exchange u session = (\<lambda>w0. (
     let self = this w0 in
     if isInitiator self then
       bindP this_connection_readLP (\<lambda>receivedMessageBuffer.
       bindP (this_xx_recvMessage session (decodeMessageBuffer u receivedMessageBuffer))
         (\<lambda>plaintext.
       logger ''Stage 1 - Initiator received the message.''))
     else
       bindP (call_signPayload u (privateKey (staticKeys self))
                (getHandshakePayload u (publicKey (staticKeys self)))) (\<lambda>signedPayload.
       bindP (call_createHandshakePayload u (remotePublicKey self) signedPayload None None)
         (\<lambda>handshakePayload.
       bindP (this_xx_sendMessage session handshakePayload) (\<lambda>messageBuffer.
       bindP (this_connection_writeLP (encodeMessageBuffer u messageBuffer)) (\<lambda>_.
       logger ''Stage 1 - Responder sent the message.''))))) w0)"

text \<open>Stage 2.\<close>

definition finish ::
  "'mb utils \<Rightarrow> sref \<Rightarrow> (unit, ('hs, 'cs, 'mb, 't) world) prog" where
  "finish u session = (\<lambda>w0. (
     let self = this w0 in
     if isInitiator self then
       bindP (this_xx_sendMessage session []) (\<lambda>messageBuffer.
       bindP (this_connection_writeLP (encodeMessageBuffer u messageBuffer)) (\<lambda>_.
       logger ''Stage 2 - Initiator sent message.''))
     else
       bindP this_connection_readLP (\<lambda>receivedMessageBuffer.
       bindP (this_xx_recvMessage session (decodeMessageBuffer u receivedMessageBuffer))
         (\<lambda>plaintext.
       logger ''Stage 2 - Responder received the message, finished handshake.''))) w0)"

subsection \<open>After the handshake\<close>

text \<open>
  \<open>getCS(session, encryption = true)\<close>: throws unless both cipher states exist,
  then picks one by role and direction.
\<close>

definition getCS :: "sref \<Rightarrow> bool \<Rightarrow> (cref, ('hs, 'cs, 'mb, 't) world) prog" where
  "getCS session encryption = (\<lambda>w.
     case (cs1 (sessions (heap w) session), cs2 (sessions (heap w) session)) of
       (Some c1, Some c2) \<Rightarrow>
         if isInitiator (this w)
         then ret (if encryption then c1 else c2) w
         else ret (if encryption then c2 else c1) w
     | _ \<Rightarrow>
         throw (Error ''Handshake not completed properly, cipher state does not exist.'') w)"

definition encrypt :: "bytes \<Rightarrow> sref \<Rightarrow> (bytes, ('hs, 'cs, 'mb, 't) world) prog" where
  "encrypt plaintext session =
     bindP (getCS session True) (\<lambda>cs. this_xx_encryptWithAd cs [] plaintext)"

definition decrypt :: "bytes \<Rightarrow> sref \<Rightarrow> (bytes, ('hs, 'cs, 'mb, 't) world) prog" where
  "decrypt ciphertext session =
     bindP (getCS session False) (\<lambda>cs. this_xx_decryptWithAd cs [] ciphertext)"

subsection \<open>Observing a call\<close>

text \<open>The calls a method body adds when it runs in \<open>w\<close>.\<close>

definition new_calls ::
  "('a, ('hs, 'cs, 'mb, 't) world) prog \<Rightarrow> ('hs, 'cs, 'mb, 't) world \<Rightarrow> 'mb call list" where
  "new_calls m w = drop (length (calls w)) (calls (fst (m w)))"

text \<open>The length-framed transport operations.\<close>

fun is_LP :: "'mb call \<Rightarrow> bool" where
  "is_LP ReadLP = True"
| "is_LP (WriteLP b) = True"
| "is_LP c = False"

fun is_read :: "'mb call \<Rightarrow> bool" where
  "is_read ReadLP = True"
| "is_read c = False"

fun is_write :: "'mb call \<Rightarrow> bool" where
  "is_write (WriteLP b) = True"
| "is_write c = False"

definition reads :: "'mb call list \<Rightarrow> nat" where
  "reads cs = length (filter is_read cs)"

definition writes :: "'mb call list \<Rightarrow> nat" where
  "writes cs = length (filter is_write cs)"

text \<open>Signing, and building or sending a handshake payload.\<close>

fun is_sign :: "'mb call \<Rightarrow> bool" where
  "is_sign (SignPayload k m) = True"
| "is_sign c = False"

fun is_payload :: "'mb call \<Rightarrow> bool" where
  "is_payload (SignPayload k m) = True"
| "is_payload (CreateHandshakePayload k s e p) = True"
| "is_payload (SendMessage s m) = True"
| "is_payload c = False"

subsection \<open>Concrete collaborators for closed examples\<close>

text \<open>
  The general theorems below hold for every XX implementation, connection and
  helper set. The closed examples run the driver against the simplest ones: a
  connection over two queues of frames, an XX layer that sends its payload in the
  clear and creates the two cipher states with the third message, and helpers
  that concatenate.
\<close>

record pipe =
  inbox :: "bytes list"
  outbox :: "bytes list"

definition queue_connection :: "pipe WrappedConnection" where
  "queue_connection =
     \<lparr>readLP = (\<lambda>t. case inbox t of
                  [] \<Rightarrow> (t, Inl (Error ''stream ended''))
                | b # bs \<Rightarrow> (t\<lparr>inbox := bs\<rparr>, Inr b)),
      writeLP = (\<lambda>b t. (t\<lparr>outbox := outbox t @ [b]\<rparr>, Inr ()))\<rparr>"

definition advance :: "nat NoiseSession \<Rightarrow> nat NoiseSession" where
  "advance s = (if hs s = 2 then s\<lparr>hs := 3, cs1 := Some 1, cs2 := Some 2\<rparr>
                else s\<lparr>hs := Suc (hs s)\<rparr>)"

definition clear_xx :: "(nat, nat, bytes) XXHandshake" where
  "clear_xx =
     \<lparr>initSession = (\<lambda>i pro ks rpk hp.
        (hp\<lparr>sessions := (sessions hp)(0 := \<lparr>hs = 0, cs1 = None, cs2 = None\<rparr>)\<rparr>, Inr 0)),
      sendMessage = (\<lambda>s m hp. (hp\<lparr>sessions := (sessions hp)(s := advance (sessions hp s))\<rparr>, Inr m)),
      recvMessage = (\<lambda>s m hp. (hp\<lparr>sessions := (sessions hp)(s := advance (sessions hp s))\<rparr>, Inr m)),
      encryptWithAd = (\<lambda>c ad p. (Suc c, Inr p)),
      decryptWithAd = (\<lambda>c ad p. (Suc c, Inr p))\<rparr>"

text \<open>An XX layer whose \<open>sendMessage\<close> throws.\<close>

definition failing_xx :: "(nat, nat, bytes) XXHandshake" where
  "failing_xx = clear_xx\<lparr>sendMessage := (\<lambda>s m hp. (hp, Inl (Error ''Session invalid.'')))\<rparr>"

definition concat_utils :: "bytes utils" where
  "concat_utils =
     \<lparr>signPayload = (\<lambda>k m. k @ m),
      getHandshakePayload = (\<lambda>pk. 110 # pk),
      createHandshakePayload = (\<lambda>k s e p. k @ s @ (case e of None \<Rightarrow> [] | Some d \<Rightarrow> d)),
      encodeMessageBuffer = (\<lambda>m. m),
      decodeMessageBuffer = (\<lambda>b. b)\<rparr>"

text \<open>Two peers: static key pairs, and the other side's key as the remote key.\<close>

definition keysA :: KeyPair where
  "keysA = \<lparr>publicKey = [1], privateKey = [11]\<rparr>"

definition keysB :: KeyPair where
  "keysB = \<lparr>publicKey = [2], privateKey = [22]\<rparr>"

definition empty_heap :: "(nat, nat) xheap" where
  "empty_heap = \<lparr>sessions = (\<lambda>_. \<lparr>hs = 0, cs1 = None, cs2 = None\<rparr>), ciphers = (\<lambda>_. 0)\<rparr>"

definition done_heap :: "(nat, nat) xheap" where
  "done_heap = \<lparr>sessions = (\<lambda>_. \<lparr>hs = 3, cs1 = Some 1, cs2 = Some 2\<rparr>), ciphers = (\<lambda>_. 0)\<rparr>"

definition initiator_world :: "bytes list \<Rightarrow> (nat, nat, bytes, pipe) world" where
  "initiator_world frames =
     \<lparr>this = new_Handshake clear_xx XX True (publicKey keysB) [] keysA queue_connection None,
      heap = empty_heap, wire = \<lparr>inbox = frames, outbox = []\<rparr>, calls = []\<rparr>"

definition responder_world :: "bytes list \<Rightarrow> (nat, nat, bytes, pipe) world" where
  "responder_world frames =
     \<lparr>this = new_Handshake clear_xx XX False (publicKey keysA) [] keysB queue_connection None,
      heap = empty_heap, wire = \<lparr>inbox = frames, outbox = []\<rparr>, calls = []\<rparr>"

text \<open>An initiator constructed with the failing XX layer injected.\<close>

definition failing_world :: "(nat, nat, bytes, pipe) world" where
  "failing_world =
     \<lparr>this = new_Handshake clear_xx XX True (publicKey keysB) [] keysA queue_connection
               (Some failing_xx),
      heap = empty_heap, wire = \<lparr>inbox = [], outbox = []\<rparr>, calls = []\<rparr>"

text \<open>
  A payload that names B's identity key but carries a signature made with another
  private key over another static key.
\<close>

definition forged_payload :: bytes where
  "forged_payload =
     createHandshakePayload concat_utils (publicKey keysB)
       (signPayload concat_utils [99] (getHandshakePayload concat_utils [7])) None None"

text \<open>Worlds in which both cipher states of every session exist.\<close>

definition completed_world :: "bool \<Rightarrow> (nat, nat, bytes, pipe) world" where
  "completed_world i =
     \<lparr>this = new_Handshake clear_xx XX i [] [] keysA queue_connection None,
      heap = done_heap, wire = \<lparr>inbox = [], outbox = []\<rparr>, calls = []\<rparr>"

text \<open>
  The worlds an initiator A and a responder B are in between the stages, when
  the frames \<open>frames\<close> are waiting on the connection.
\<close>

definition initiator_before_exchange :: "bytes list \<Rightarrow> (nat, nat, bytes, pipe) world" where
  "initiator_before_exchange frames = fst (propose concat_utils None (initiator_world frames))"

definition initiator_before_finish :: "bytes list \<Rightarrow> (nat, nat, bytes, pipe) world" where
  "initiator_before_finish frames =
     fst (exchange concat_utils 0 (initiator_before_exchange frames))"

definition responder_before_exchange :: "bytes list \<Rightarrow> (nat, nat, bytes, pipe) world" where
  "responder_before_exchange frames = fst (propose concat_utils None (responder_world frames))"

lemmas prog_defs = bindP_def ret_def throw_def emit_def logger_def
  this_xx_initSession_def this_xx_sendMessage_def this_xx_recvMessage_def
  this_xx_encryptWithAd_def this_xx_decryptWithAd_def
  this_connection_readLP_def this_connection_writeLP_def
  call_signPayload_def call_createHandshakePayload_def

lemmas example_defs = new_Handshake_def queue_connection_def advance_def clear_xx_def
  concat_utils_def keysA_def keysB_def empty_heap_def initiator_world_def
  responder_world_def

section \<open>Running a method body\<close>

text \<open>
  The world and the outcome of a sequence, from those of its parts; and what each
  call on a collaborator does to each component of the world.
\<close>

lemma fst_bindP:
  "fst (bindP m f w) = (case snd (m w) of Inl e \<Rightarrow> fst (m w) | Inr x \<Rightarrow> fst (f x (fst (m w))))"
  by (simp add: bindP_def split_beta split: sum.splits)

lemma snd_bindP:
  "snd (bindP m f w) = (case snd (m w) of Inl e \<Rightarrow> Inl e | Inr x \<Rightarrow> snd (f x (fst (m w))))"
  by (simp add: bindP_def split_beta split: sum.splits)

lemma bindP_assoc: "bindP (bindP m f) g = bindP m (\<lambda>x. bindP (f x) g)"
  by (rule ext) (simp add: bindP_def split: prod.splits sum.splits)

lemma run_ret: "fst (ret x w) = w" "snd (ret x w) = Inr x"
  by (simp_all add: ret_def)

lemma run_throw: "fst (throw e w) = w" "snd (throw e w) = Inl e"
  by (simp_all add: throw_def)

lemma run_logger:
  "this (fst (logger msg w)) = this w"
  "heap (fst (logger msg w)) = heap w"
  "wire (fst (logger msg w)) = wire w"
  "calls (fst (logger msg w)) = calls w @ [Logger msg]"
  "snd (logger msg w) = Inr ()"
  by (simp_all add: logger_def emit_def)

lemma run_signPayload:
  "this (fst (call_signPayload u k p w)) = this w"
  "heap (fst (call_signPayload u k p w)) = heap w"
  "wire (fst (call_signPayload u k p w)) = wire w"
  "calls (fst (call_signPayload u k p w)) = calls w @ [SignPayload k p]"
  "snd (call_signPayload u k p w) = Inr (signPayload u k p)"
  by (simp_all add: call_signPayload_def bindP_def emit_def ret_def)

lemma run_createHandshakePayload:
  "this (fst (call_createHandshakePayload u k s e p w)) = this w"
  "heap (fst (call_createHandshakePayload u k s e p w)) = heap w"
  "wire (fst (call_createHandshakePayload u k s e p w)) = wire w"
  "calls (fst (call_createHandshakePayload u k s e p w)) =
     calls w @ [CreateHandshakePayload k s e p]"
  "snd (call_createHandshakePayload u k s e p w) = Inr (createHandshakePayload u k s e p)"
  by (simp_all add: call_createHandshakePayload_def bindP_def emit_def ret_def)

lemma run_initSession:
  "this (fst (this_xx_initSession i p k r w)) = this w"
  "heap (fst (this_xx_initSession i p k r w)) = fst (initSession (xx (this w)) i p k r (heap w))"
  "wire (fst (this_xx_initSession i p k r w)) = wire w"
  "calls (fst (this_xx_initSession i p k r w)) = calls w @ [InitSession i p k r]"
  "snd (this_xx_initSession i p k r w) = snd (initSession (xx (this w)) i p k r (heap w))"
  by (simp_all add: this_xx_initSession_def split_beta)

lemma run_sendMessage:
  "this (fst (this_xx_sendMessage s m w)) = this w"
  "heap (fst (this_xx_sendMessage s m w)) = fst (sendMessage (xx (this w)) s m (heap w))"
  "wire (fst (this_xx_sendMessage s m w)) = wire w"
  "calls (fst (this_xx_sendMessage s m w)) = calls w @ [SendMessage s m]"
  "snd (this_xx_sendMessage s m w) = snd (sendMessage (xx (this w)) s m (heap w))"
  by (simp_all add: this_xx_sendMessage_def split_beta)

lemma run_recvMessage:
  "this (fst (this_xx_recvMessage s mb w)) = this w"
  "heap (fst (this_xx_recvMessage s mb w)) = fst (recvMessage (xx (this w)) s mb (heap w))"
  "wire (fst (this_xx_recvMessage s mb w)) = wire w"
  "calls (fst (this_xx_recvMessage s mb w)) = calls w @ [RecvMessage s mb]"
  "snd (this_xx_recvMessage s mb w) = snd (recvMessage (xx (this w)) s mb (heap w))"
  by (simp_all add: this_xx_recvMessage_def split_beta)

lemma run_readLP:
  "this (fst (this_connection_readLP w)) = this w"
  "heap (fst (this_connection_readLP w)) = heap w"
  "wire (fst (this_connection_readLP w)) = fst (readLP (connection (this w)) (wire w))"
  "calls (fst (this_connection_readLP w)) = calls w @ [ReadLP]"
  "snd (this_connection_readLP w) = snd (readLP (connection (this w)) (wire w))"
  by (simp_all add: this_connection_readLP_def split_beta)

lemma run_writeLP:
  "this (fst (this_connection_writeLP b w)) = this w"
  "heap (fst (this_connection_writeLP b w)) = heap w"
  "wire (fst (this_connection_writeLP b w)) = fst (writeLP (connection (this w)) b (wire w))"
  "calls (fst (this_connection_writeLP b w)) = calls w @ [WriteLP b]"
  "snd (this_connection_writeLP b w) = snd (writeLP (connection (this w)) b (wire w))"
  by (simp_all add: this_connection_writeLP_def split_beta)

lemmas run = fst_bindP snd_bindP run_ret run_throw run_logger run_signPayload
  run_createHandshakePayload run_initSession run_sendMessage run_recvMessage
  run_readLP run_writeLP

text \<open>Each stage, one role at a time, with the final \<open>return\<close> inside the branch.\<close>

lemma propose_initiator:
  "isInitiator (this w) \<Longrightarrow> propose u earlyData w =
     bindP (this_xx_initSession True (prologue (this w)) (staticKeys (this w))
              (remotePublicKey (this w))) (\<lambda>ns.
     bindP (call_signPayload u (privateKey (staticKeys (this w)))
              (getHandshakePayload u (publicKey (staticKeys (this w))))) (\<lambda>signedPayload.
     bindP (call_createHandshakePayload u (publicKey (staticKeys (this w))) signedPayload
              earlyData (Some (privateKey (staticKeys (this w))))) (\<lambda>handshakePayload.
     bindP (this_xx_sendMessage ns handshakePayload) (\<lambda>messageBuffer.
     bindP (this_connection_writeLP (encodeMessageBuffer u messageBuffer)) (\<lambda>_.
     bindP (logger ''Stage 0 - Initiator finished proposing'') (\<lambda>_.
     ret ns)))))) w"
  by (simp add: propose_def Let_def bindP_assoc)

lemma propose_responder:
  "\<not> isInitiator (this w) \<Longrightarrow> propose u earlyData w =
     bindP (this_xx_initSession False (prologue (this w)) (staticKeys (this w))
              (remotePublicKey (this w))) (\<lambda>ns.
     bindP this_connection_readLP (\<lambda>receivedMessageBuffer.
     bindP (this_xx_recvMessage ns (decodeMessageBuffer u receivedMessageBuffer)) (\<lambda>plaintext.
     bindP (logger ''Stage 0 - Responder received proposed message.'') (\<lambda>_.
     ret ns)))) w"
  by (simp add: propose_def Let_def bindP_assoc)

lemma exchange_initiator:
  "isInitiator (this w) \<Longrightarrow> exchange u session w =
     bindP this_connection_readLP (\<lambda>receivedMessageBuffer.
     bindP (this_xx_recvMessage session (decodeMessageBuffer u receivedMessageBuffer))
       (\<lambda>plaintext.
     logger ''Stage 1 - Initiator received the message.'')) w"
  by (simp add: exchange_def Let_def)

lemma exchange_responder:
  "\<not> isInitiator (this w) \<Longrightarrow> exchange u session w =
     bindP (call_signPayload u (privateKey (staticKeys (this w)))
              (getHandshakePayload u (publicKey (staticKeys (this w))))) (\<lambda>signedPayload.
     bindP (call_createHandshakePayload u (remotePublicKey (this w)) signedPayload None None)
       (\<lambda>handshakePayload.
     bindP (this_xx_sendMessage session handshakePayload) (\<lambda>messageBuffer.
     bindP (this_connection_writeLP (encodeMessageBuffer u messageBuffer)) (\<lambda>_.
     logger ''Stage 1 - Responder sent the message.'')))) w"
  by (simp add: exchange_def Let_def)

lemma finish_initiator:
  "isInitiator (this w) \<Longrightarrow> finish u session w =
     bindP (this_xx_sendMessage session []) (\<lambda>messageBuffer.
     bindP (this_connection_writeLP (encodeMessageBuffer u messageBuffer)) (\<lambda>_.
     logger ''Stage 2 - Initiator sent message.'')) w"
  by (simp add: finish_def Let_def)

lemma finish_responder:
  "\<not> isInitiator (this w) \<Longrightarrow> finish u session w =
     bindP this_connection_readLP (\<lambda>receivedMessageBuffer.
     bindP (this_xx_recvMessage session (decodeMessageBuffer u receivedMessageBuffer))
       (\<lambda>plaintext.
     logger ''Stage 2 - Responder received the message, finished handshake.'')) w"
  by (simp add: finish_def Let_def)


section \<open>The calls of each stage\<close>

text \<open>
  The calls a stage makes, by role: each call is followed by the next one only if
  it returned.
\<close>

lemma propose_initiator_calls:
  assumes "isInitiator (this w)"
  shows "new_calls (propose u earlyData) w =
    InitSession True (prologue (this w)) (staticKeys (this w)) (remotePublicKey (this w)) #
    (case snd (initSession (xx (this w)) True (prologue (this w)) (staticKeys (this w))
                 (remotePublicKey (this w)) (heap w)) of
       Inl e \<Rightarrow> []
     | Inr ns \<Rightarrow>
         [SignPayload (privateKey (staticKeys (this w)))
            (getHandshakePayload u (publicKey (staticKeys (this w)))),
          CreateHandshakePayload (publicKey (staticKeys (this w)))
            (signPayload u (privateKey (staticKeys (this w)))
               (getHandshakePayload u (publicKey (staticKeys (this w)))))
            earlyData (Some (privateKey (staticKeys (this w)))),
          SendMessage ns
            (createHandshakePayload u (publicKey (staticKeys (this w)))
               (signPayload u (privateKey (staticKeys (this w)))
                  (getHandshakePayload u (publicKey (staticKeys (this w)))))
               earlyData (Some (privateKey (staticKeys (this w)))))] @
         (case snd (sendMessage (xx (this w)) ns
                      (createHandshakePayload u (publicKey (staticKeys (this w)))
                         (signPayload u (privateKey (staticKeys (this w)))
                            (getHandshakePayload u (publicKey (staticKeys (this w)))))
                         earlyData (Some (privateKey (staticKeys (this w)))))
                      (fst (initSession (xx (this w)) True (prologue (this w))
                              (staticKeys (this w)) (remotePublicKey (this w)) (heap w)))) of
            Inl e \<Rightarrow> []
          | Inr mb \<Rightarrow>
              WriteLP (encodeMessageBuffer u mb) #
              (case snd (writeLP (connection (this w)) (encodeMessageBuffer u mb) (wire w)) of
                 Inl e \<Rightarrow> []
               | Inr x \<Rightarrow> [Logger ''Stage 0 - Initiator finished proposing''])))"
  using assms
  by (simp add: new_calls_def propose_initiator run split: sum.split)

lemma propose_responder_calls:
  assumes "\<not> isInitiator (this w)"
  shows "new_calls (propose u earlyData) w =
    InitSession False (prologue (this w)) (staticKeys (this w)) (remotePublicKey (this w)) #
    (case snd (initSession (xx (this w)) False (prologue (this w)) (staticKeys (this w))
                 (remotePublicKey (this w)) (heap w)) of
       Inl e \<Rightarrow> []
     | Inr ns \<Rightarrow>
         ReadLP #
         (case snd (readLP (connection (this w)) (wire w)) of
            Inl e \<Rightarrow> []
          | Inr b \<Rightarrow>
              RecvMessage ns (decodeMessageBuffer u b) #
              (case snd (recvMessage (xx (this w)) ns (decodeMessageBuffer u b)
                           (fst (initSession (xx (this w)) False (prologue (this w))
                                   (staticKeys (this w)) (remotePublicKey (this w))
                                   (heap w)))) of
                 Inl e \<Rightarrow> []
               | Inr p \<Rightarrow> [Logger ''Stage 0 - Responder received proposed message.''])))"
  using assms
  by (simp add: new_calls_def propose_responder run split: sum.split)

lemma exchange_initiator_calls:
  assumes "isInitiator (this w)"
  shows "new_calls (exchange u session) w =
    ReadLP #
    (case snd (readLP (connection (this w)) (wire w)) of
       Inl e \<Rightarrow> []
     | Inr b \<Rightarrow>
         RecvMessage session (decodeMessageBuffer u b) #
         (case snd (recvMessage (xx (this w)) session (decodeMessageBuffer u b) (heap w)) of
            Inl e \<Rightarrow> []
          | Inr p \<Rightarrow> [Logger ''Stage 1 - Initiator received the message.'']))"
  using assms
  by (simp add: new_calls_def exchange_initiator run split: sum.split)

lemma exchange_responder_calls:
  assumes "\<not> isInitiator (this w)"
  shows "new_calls (exchange u session) w =
    [SignPayload (privateKey (staticKeys (this w)))
       (getHandshakePayload u (publicKey (staticKeys (this w)))),
     CreateHandshakePayload (remotePublicKey (this w))
       (signPayload u (privateKey (staticKeys (this w)))
          (getHandshakePayload u (publicKey (staticKeys (this w)))))
       None None,
     SendMessage session
       (createHandshakePayload u (remotePublicKey (this w))
          (signPayload u (privateKey (staticKeys (this w)))
             (getHandshakePayload u (publicKey (staticKeys (this w)))))
          None None)] @
    (case snd (sendMessage (xx (this w)) session
                 (createHandshakePayload u (remotePublicKey (this w))
                    (signPayload u (privateKey (staticKeys (this w)))
                       (getHandshakePayload u (publicKey (staticKeys (this w)))))
                    None None)
                 (heap w)) of
       Inl e \<Rightarrow> []
     | Inr mb \<Rightarrow>
         WriteLP (encodeMessageBuffer u mb) #
         (case snd (writeLP (connection (this w)) (encodeMessageBuffer u mb) (wire w)) of
            Inl e \<Rightarrow> []
          | Inr x \<Rightarrow> [Logger ''Stage 1 - Responder sent the message.'']))"
  using assms
  by (simp add: new_calls_def exchange_responder run split: sum.split)

lemma finish_initiator_calls:
  assumes "isInitiator (this w)"
  shows "new_calls (finish u session) w =
    SendMessage session [] #
    (case snd (sendMessage (xx (this w)) session [] (heap w)) of
       Inl e \<Rightarrow> []
     | Inr mb \<Rightarrow>
         WriteLP (encodeMessageBuffer u mb) #
         (case snd (writeLP (connection (this w)) (encodeMessageBuffer u mb) (wire w)) of
            Inl e \<Rightarrow> []
          | Inr x \<Rightarrow> [Logger ''Stage 2 - Initiator sent message.'']))"
  using assms
  by (simp add: new_calls_def finish_initiator run split: sum.split)

lemma finish_responder_calls:
  assumes "\<not> isInitiator (this w)"
  shows "new_calls (finish u session) w =
    ReadLP #
    (case snd (readLP (connection (this w)) (wire w)) of
       Inl e \<Rightarrow> []
     | Inr b \<Rightarrow>
         RecvMessage session (decodeMessageBuffer u b) #
         (case snd (recvMessage (xx (this w)) session (decodeMessageBuffer u b) (heap w)) of
            Inl e \<Rightarrow> []
          | Inr p \<Rightarrow> [Logger ''Stage 2 - Responder received the message, finished handshake.'']))"
  using assms
  by (simp add: new_calls_def finish_responder run split: sum.split)

text \<open>The outcome of each stage, by role: the first error thrown, if any.\<close>

lemma propose_initiator_result:
  assumes "isInitiator (this w)"
  shows "snd (propose u earlyData w) =
    (case snd (initSession (xx (this w)) True (prologue (this w)) (staticKeys (this w))
                 (remotePublicKey (this w)) (heap w)) of
       Inl e \<Rightarrow> Inl e
     | Inr ns \<Rightarrow>
         (case snd (sendMessage (xx (this w)) ns
                      (createHandshakePayload u (publicKey (staticKeys (this w)))
                         (signPayload u (privateKey (staticKeys (this w)))
                            (getHandshakePayload u (publicKey (staticKeys (this w)))))
                         earlyData (Some (privateKey (staticKeys (this w)))))
                      (fst (initSession (xx (this w)) True (prologue (this w))
                              (staticKeys (this w)) (remotePublicKey (this w)) (heap w)))) of
            Inl e \<Rightarrow> Inl e
          | Inr mb \<Rightarrow>
              (case snd (writeLP (connection (this w)) (encodeMessageBuffer u mb) (wire w)) of
                 Inl e \<Rightarrow> Inl e
               | Inr x \<Rightarrow> Inr ns)))"
  using assms
  by (simp add: propose_initiator run split: sum.split)

lemma propose_responder_result:
  assumes "\<not> isInitiator (this w)"
  shows "snd (propose u earlyData w) =
    (case snd (initSession (xx (this w)) False (prologue (this w)) (staticKeys (this w))
                 (remotePublicKey (this w)) (heap w)) of
       Inl e \<Rightarrow> Inl e
     | Inr ns \<Rightarrow>
         (case snd (readLP (connection (this w)) (wire w)) of
            Inl e \<Rightarrow> Inl e
          | Inr b \<Rightarrow>
              (case snd (recvMessage (xx (this w)) ns (decodeMessageBuffer u b)
                           (fst (initSession (xx (this w)) False (prologue (this w))
                                   (staticKeys (this w)) (remotePublicKey (this w))
                                   (heap w)))) of
                 Inl e \<Rightarrow> Inl e
               | Inr p \<Rightarrow> Inr ns)))"
  using assms
  by (simp add: propose_responder run split: sum.split)

lemma exchange_initiator_result:
  assumes "isInitiator (this w)"
  shows "snd (exchange u session w) =
    (case snd (readLP (connection (this w)) (wire w)) of
       Inl e \<Rightarrow> Inl e
     | Inr b \<Rightarrow>
         (case snd (recvMessage (xx (this w)) session (decodeMessageBuffer u b) (heap w)) of
            Inl e \<Rightarrow> Inl e
          | Inr p \<Rightarrow> Inr ()))"
  using assms
  by (simp add: exchange_initiator run split: sum.split)

lemma exchange_responder_result:
  assumes "\<not> isInitiator (this w)"
  shows "snd (exchange u session w) =
    (case snd (sendMessage (xx (this w)) session
                 (createHandshakePayload u (remotePublicKey (this w))
                    (signPayload u (privateKey (staticKeys (this w)))
                       (getHandshakePayload u (publicKey (staticKeys (this w)))))
                    None None)
                 (heap w)) of
       Inl e \<Rightarrow> Inl e
     | Inr mb \<Rightarrow>
         (case snd (writeLP (connection (this w)) (encodeMessageBuffer u mb) (wire w)) of
            Inl e \<Rightarrow> Inl e
          | Inr x \<Rightarrow> Inr ()))"
  using assms
  by (simp add: exchange_responder run split: sum.split)

lemma finish_initiator_result:
  assumes "isInitiator (this w)"
  shows "snd (finish u session w) =
    (case snd (sendMessage (xx (this w)) session [] (heap w)) of
       Inl e \<Rightarrow> Inl e
     | Inr mb \<Rightarrow>
         (case snd (writeLP (connection (this w)) (encodeMessageBuffer u mb) (wire w)) of
            Inl e \<Rightarrow> Inl e
          | Inr x \<Rightarrow> Inr ()))"
  using assms
  by (simp add: finish_initiator run split: sum.split)

lemma finish_responder_result:
  assumes "\<not> isInitiator (this w)"
  shows "snd (finish u session w) =
    (case snd (readLP (connection (this w)) (wire w)) of
       Inl e \<Rightarrow> Inl e
     | Inr b \<Rightarrow>
         (case snd (recvMessage (xx (this w)) session (decodeMessageBuffer u b) (heap w)) of
            Inl e \<Rightarrow> Inl e
          | Inr p \<Rightarrow> Inr ()))"
  using assms
  by (simp add: finish_responder run split: sum.split)

text \<open>The transport operations among the calls of a stage.\<close>

lemma transport_counts:
  "reads (c # cs) = (if is_read c then 1 else 0) + reads cs"
  "writes (c # cs) = (if is_write c then 1 else 0) + writes cs"
  "reads (xs @ ys) = reads xs + reads ys"
  "writes (xs @ ys) = writes xs + writes ys"
  "reads [] = 0" "writes [] = 0"
  by (simp_all add: reads_def writes_def)

section \<open>Encrypting and decrypting\<close>

text \<open>
  C4. When \<open>cs1\<close> or \<open>cs2\<close> of the session is not populated, \<open>encrypt\<close> and
  \<open>decrypt\<close> throw the error "Handshake not completed properly, cipher state
  does not exist." and do nothing else: the world is returned as it was, so no
  AEAD call is made and no cipher state is read or written.
\<close>

theorem encrypt_decrypt_incomplete:
  assumes "cs1 (sessions (heap w) session) = None \<or> cs2 (sessions (heap w) session) = None"
  shows "encrypt plaintext session w =
           (w, Inl (Error ''Handshake not completed properly, cipher state does not exist.''))
       \<and> decrypt ciphertext session w =
           (w, Inl (Error ''Handshake not completed properly, cipher state does not exist.''))"
  using assms
  by (auto simp: encrypt_def decrypt_def getCS_def bindP_def throw_def split: option.splits)

theorem encrypt_decrypt_incomplete_witness:
  "(cs1 (sessions (heap (initiator_world [])) 0) = None
      \<or> cs2 (sessions (heap (initiator_world [])) 0) = None)
   \<and> encrypt [7] 0 (initiator_world []) =
       (initiator_world [],
        Inl (Error ''Handshake not completed properly, cipher state does not exist.''))
   \<and> decrypt [7] 0 (initiator_world []) =
       (initiator_world [],
        Inl (Error ''Handshake not completed properly, cipher state does not exist.''))"
proof -
  have h: "cs1 (sessions (heap (initiator_world [])) 0) = None
             \<or> cs2 (sessions (heap (initiator_world [])) 0) = None"
    by (simp add: initiator_world_def empty_heap_def)
  from encrypt_decrypt_incomplete [OF h, where plaintext = "[7]" and ciphertext = "[7]"] h
  show ?thesis
    by simp
qed

text \<open>What \<open>getCS\<close> returns once both cipher states exist.\<close>

lemma getCS_completed:
  "cs1 (sessions (heap w) session) = Some c1 \<Longrightarrow> cs2 (sessions (heap w) session) = Some c2 \<Longrightarrow>
   getCS session encryption w =
     (w, Inr (if isInitiator (this w) = encryption then c1 else c2))"
  by (simp add: getCS_def ret_def)

text \<open>
  C5. In a completed session (\<open>cs1\<close> and \<open>cs2\<close> populated) \<open>encrypt\<close> runs
  the AEAD on \<open>cs1\<close> for the initiator and on \<open>cs2\<close> for the responder, and
  \<open>decrypt\<close> on the other one: that cipher state is the one handed to
  \<open>encryptWithAd\<close> (\<open>decryptWithAd\<close>), with empty associated data, and its
  outcome is the outcome of the call.
\<close>

theorem encrypt_decrypt_cipher_choice:
  assumes "cs1 (sessions (heap w) session) = Some c1"
    and "cs2 (sessions (heap w) session) = Some c2"
  shows "new_calls (encrypt plaintext session) w =
           [EncryptWithAd (if isInitiator (this w) then c1 else c2) [] plaintext]
       \<and> snd (encrypt plaintext session w) =
           snd (encryptWithAd (xx (this w))
                  (ciphers (heap w) (if isInitiator (this w) then c1 else c2)) [] plaintext)
       \<and> new_calls (decrypt ciphertext session) w =
           [DecryptWithAd (if isInitiator (this w) then c2 else c1) [] ciphertext]
       \<and> snd (decrypt ciphertext session w) =
           snd (decryptWithAd (xx (this w))
                  (ciphers (heap w) (if isInitiator (this w) then c2 else c1)) [] ciphertext)"
  using assms
  by (simp add: encrypt_def decrypt_def getCS_completed bindP_def new_calls_def
      this_xx_encryptWithAd_def this_xx_decryptWithAd_def split_beta)

theorem encrypt_decrypt_cipher_choice_witness:
  "cs1 (sessions (heap (completed_world True)) 0) = Some 1
   \<and> cs2 (sessions (heap (completed_world True)) 0) = Some 2
   \<and> new_calls (encrypt [7] 0) (completed_world True) = [EncryptWithAd 1 [] [7]]
   \<and> new_calls (decrypt [8] 0) (completed_world True) = [DecryptWithAd 2 [] [8]]
   \<and> new_calls (encrypt [7] 0) (completed_world False) = [EncryptWithAd 2 [] [7]]
   \<and> new_calls (decrypt [8] 0) (completed_world False) = [DecryptWithAd 1 [] [8]]"
proof -
  have a: "cs1 (sessions (heap (completed_world i)) 0) = Some 1" for i
    by (simp add: completed_world_def done_heap_def)
  have b: "cs2 (sessions (heap (completed_world i)) 0) = Some 2" for i
    by (simp add: completed_world_def done_heap_def)
  have i: "isInitiator (this (completed_world i)) = i" for i
    by (simp add: completed_world_def new_Handshake_def)
  from encrypt_decrypt_cipher_choice
         [where w = "completed_world True" and plaintext = "[7]" and ciphertext = "[8]", OF a b]
       encrypt_decrypt_cipher_choice
         [where w = "completed_world False" and plaintext = "[7]" and ciphertext = "[8]", OF a b]
       a b i
  show ?thesis by simp
qed

text \<open>
  C8. \<open>encrypt\<close> and \<open>decrypt\<close> make no transport call and leave the transport
  as it was; they leave every session object as it was, so \<open>cs1\<close> and \<open>cs2\<close>
  still refer to the same cipher states. When \<open>cs1\<close> or \<open>cs2\<close> is missing the
  heap is untouched. Otherwise the only cipher state that may differ is the
  selected one (for \<open>encrypt\<close>, \<open>cs1\<close> on the initiator and \<open>cs2\<close> on the
  responder; for \<open>decrypt\<close>, the other one), and it holds what the AEAD call
  left in it.
\<close>

theorem encrypt_decrypt_frame:
  "filter is_LP (new_calls (encrypt plaintext session) w) = []
   \<and> wire (fst (encrypt plaintext session w)) = wire w
   \<and> sessions (heap (fst (encrypt plaintext session w))) = sessions (heap w)
   \<and> (((cs1 (sessions (heap w) session) = None \<or> cs2 (sessions (heap w) session) = None)
        \<and> heap (fst (encrypt plaintext session w)) = heap w)
       \<or> (\<exists>c1 c2. cs1 (sessions (heap w) session) = Some c1
                \<and> cs2 (sessions (heap w) session) = Some c2
                \<and> heap (fst (encrypt plaintext session w)) =
                    (heap w)\<lparr>ciphers := (ciphers (heap w))
                      ((if isInitiator (this w) then c1 else c2) :=
                         fst (encryptWithAd (xx (this w))
                                (ciphers (heap w) (if isInitiator (this w) then c1 else c2))
                                [] plaintext))\<rparr>))
   \<and> filter is_LP (new_calls (decrypt ciphertext session) w) = []
   \<and> wire (fst (decrypt ciphertext session w)) = wire w
   \<and> sessions (heap (fst (decrypt ciphertext session w))) = sessions (heap w)
   \<and> (((cs1 (sessions (heap w) session) = None \<or> cs2 (sessions (heap w) session) = None)
        \<and> heap (fst (decrypt ciphertext session w)) = heap w)
       \<or> (\<exists>c1 c2. cs1 (sessions (heap w) session) = Some c1
                \<and> cs2 (sessions (heap w) session) = Some c2
                \<and> heap (fst (decrypt ciphertext session w)) =
                    (heap w)\<lparr>ciphers := (ciphers (heap w))
                      ((if isInitiator (this w) then c2 else c1) :=
                         fst (decryptWithAd (xx (this w))
                                (ciphers (heap w) (if isInitiator (this w) then c2 else c1))
                                [] ciphertext))\<rparr>))"
proof (cases "cs1 (sessions (heap w) session) = None \<or> cs2 (sessions (heap w) session) = None")
  case True
  then have "encrypt plaintext session w =
               (w, Inl (Error ''Handshake not completed properly, cipher state does not exist.''))"
    and "decrypt ciphertext session w =
               (w, Inl (Error ''Handshake not completed properly, cipher state does not exist.''))"
    by (auto simp: encrypt_def decrypt_def getCS_def bindP_def throw_def split: option.splits)
  with True show ?thesis by (simp add: new_calls_def)
next
  case False
  then obtain c1 c2 where c: "cs1 (sessions (heap w) session) = Some c1"
      "cs2 (sessions (heap w) session) = Some c2"
    by auto
  show ?thesis
    using c
    by (simp add: encrypt_def decrypt_def getCS_completed bindP_def new_calls_def
        this_xx_encryptWithAd_def this_xx_decryptWithAd_def split_beta)
qed

text \<open>
  On a completed session of an initiator, \<open>encrypt\<close> advances the cipher state
  \<open>cs1\<close> refers to and leaves the one \<open>cs2\<close> refers to alone; \<open>decrypt\<close> does
  the opposite; on a responder the roles of the two are exchanged.
\<close>

theorem encrypt_decrypt_frame_witness:
  "ciphers (heap (fst (encrypt [7] 0 (completed_world True)))) 1 = 1
   \<and> ciphers (heap (fst (encrypt [7] 0 (completed_world True)))) 2 = 0
   \<and> ciphers (heap (fst (decrypt [8] 0 (completed_world True)))) 1 = 0
   \<and> ciphers (heap (fst (decrypt [8] 0 (completed_world True)))) 2 = 1
   \<and> ciphers (heap (fst (encrypt [7] 0 (completed_world False)))) 1 = 0
   \<and> ciphers (heap (fst (encrypt [7] 0 (completed_world False)))) 2 = 1
   \<and> ciphers (heap (fst (decrypt [8] 0 (completed_world False)))) 1 = 1
   \<and> ciphers (heap (fst (decrypt [8] 0 (completed_world False)))) 2 = 0
   \<and> wire (fst (encrypt [7] 0 (completed_world True))) = wire (completed_world True)"
proof -
  have a: "cs1 (sessions (heap (completed_world i)) 0) = Some 1"
    and b: "cs2 (sessions (heap (completed_world i)) 0) = Some 2"
    and h: "ciphers (heap (completed_world i)) = (\<lambda>_. 0)"
    and x: "xx (this (completed_world i)) = clear_xx"
    and r: "isInitiator (this (completed_world i)) = i" for i
    by (simp_all add: completed_world_def done_heap_def new_Handshake_def)
  have e: "fst (encryptWithAd clear_xx c ad p) = Suc c"
    and d: "fst (decryptWithAd clear_xx c ad p) = Suc c" for c ad p
    by (simp_all add: clear_xx_def)
  from encrypt_decrypt_frame
         [where w = "completed_world True" and session = 0 and plaintext = "[7]"
            and ciphertext = "[8]"]
       encrypt_decrypt_frame
         [where w = "completed_world False" and session = 0 and plaintext = "[7]"
            and ciphertext = "[8]"]
  show ?thesis by (simp add: a b h x r e d)
qed

section \<open>The object itself\<close>

text \<open>
  C9. No method assigns a field of the \<open>Handshake\<close> object: after \<open>propose\<close>,
  \<open>exchange\<close>, \<open>finish\<close>, \<open>encrypt\<close> and \<open>decrypt\<close>, whether they return
  or throw, \<open>isInitiator\<close>, \<open>type\<close>, \<open>remotePublicKey\<close>,
  \<open>prologue\<close>, \<open>staticKeys\<close>, \<open>connection\<close> and \<open>xx\<close> are what they were.
\<close>

theorem methods_keep_fields:
  "this (fst (propose u earlyData w)) = this w
   \<and> this (fst (exchange u session w)) = this w
   \<and> this (fst (finish u session w)) = this w
   \<and> this (fst (encrypt plaintext session w)) = this w
   \<and> this (fst (decrypt ciphertext session w)) = this w"
proof -
  have "this (fst (propose u earlyData w)) = this w"
    by (cases "isInitiator (this w)")
      (simp_all add: propose_initiator propose_responder run split: sum.split)
  moreover have "this (fst (exchange u session w)) = this w"
    by (cases "isInitiator (this w)")
      (simp_all add: exchange_initiator exchange_responder run split: sum.split)
  moreover have "this (fst (finish u session w)) = this w"
    by (cases "isInitiator (this w)")
      (simp_all add: finish_initiator finish_responder run split: sum.split)
  moreover have "this (fst (encrypt plaintext session w)) = this w"
    by (simp add: encrypt_def getCS_def bindP_def ret_def throw_def
        this_xx_encryptWithAd_def split_beta split: option.splits)
  moreover have "this (fst (decrypt ciphertext session w)) = this w"
    by (simp add: decrypt_def getCS_def bindP_def ret_def throw_def
        this_xx_decryptWithAd_def split_beta split: option.splits)
  ultimately show ?thesis by simp
qed

section \<open>Properties of the stages\<close>

text \<open>
  C6 (as amended). Every call to \<open>propose\<close>, \<open>exchange\<close> and \<open>finish\<close>
  performs at most one length-framed transport operation and never one of the
  other direction: the initiator only writes in \<open>propose\<close> and \<open>finish\<close> and
  only reads in \<open>exchange\<close>, the responder the inverse. On the reading side of
  \<open>exchange\<close> and \<open>finish\<close> the read always happens, and every call that
  returns has performed exactly one operation.
\<close>

theorem stage_transport_operations:
  "(if isInitiator (this w)
    then reads (new_calls (propose u earlyData) w) = 0
       \<and> writes (new_calls (propose u earlyData) w) \<le> 1
    else writes (new_calls (propose u earlyData) w) = 0
       \<and> reads (new_calls (propose u earlyData) w) \<le> 1)
   \<and> (if isInitiator (this w)
      then writes (new_calls (exchange u session) w) = 0
         \<and> reads (new_calls (exchange u session) w) = 1
      else reads (new_calls (exchange u session) w) = 0
         \<and> writes (new_calls (exchange u session) w) \<le> 1)
   \<and> (if isInitiator (this w)
      then reads (new_calls (finish u session) w) = 0
         \<and> writes (new_calls (finish u session) w) \<le> 1
      else writes (new_calls (finish u session) w) = 0
         \<and> reads (new_calls (finish u session) w) = 1)
   \<and> (\<forall>r. snd (propose u earlyData w) = Inr r \<longrightarrow>
         reads (new_calls (propose u earlyData) w)
           + writes (new_calls (propose u earlyData) w) = 1)
   \<and> (snd (exchange u session w) = Inr () \<longrightarrow>
         reads (new_calls (exchange u session) w)
           + writes (new_calls (exchange u session) w) = 1)
   \<and> (snd (finish u session w) = Inr () \<longrightarrow>
         reads (new_calls (finish u session) w)
           + writes (new_calls (finish u session) w) = 1)"
proof (cases "isInitiator (this w)")
  case True
  have p: "reads (new_calls (propose u earlyData) w) = 0
         \<and> writes (new_calls (propose u earlyData) w) \<le> 1"
    using True by (simp add: propose_initiator_calls transport_counts split: sum.split)
  have e: "writes (new_calls (exchange u session) w) = 0
         \<and> reads (new_calls (exchange u session) w) = 1"
    using True by (simp add: exchange_initiator_calls transport_counts split: sum.split)
  have f: "reads (new_calls (finish u session) w) = 0
         \<and> writes (new_calls (finish u session) w) \<le> 1"
    using True by (simp add: finish_initiator_calls transport_counts split: sum.split)
  have pr: "writes (new_calls (propose u earlyData) w) = 1"
    if "snd (propose u earlyData w) = Inr r" for r
    using that True
    by (auto simp: propose_initiator_calls propose_initiator_result transport_counts
        split: sum.splits)
  have fr: "writes (new_calls (finish u session) w) = 1"
    if "snd (finish u session w) = Inr ()"
    using that True
    by (auto simp: finish_initiator_calls finish_initiator_result transport_counts
        split: sum.splits)
  from True p e f pr fr show ?thesis by simp
next
  case False
  have p: "writes (new_calls (propose u earlyData) w) = 0
         \<and> reads (new_calls (propose u earlyData) w) \<le> 1"
    using False by (simp add: propose_responder_calls transport_counts split: sum.split)
  have e: "reads (new_calls (exchange u session) w) = 0
         \<and> writes (new_calls (exchange u session) w) \<le> 1"
    using False by (simp add: exchange_responder_calls transport_counts split: sum.split)
  have f: "writes (new_calls (finish u session) w) = 0
         \<and> reads (new_calls (finish u session) w) = 1"
    using False by (simp add: finish_responder_calls transport_counts split: sum.split)
  have pr: "reads (new_calls (propose u earlyData) w) = 1"
    if "snd (propose u earlyData w) = Inr r" for r
    using that False
    by (auto simp: propose_responder_calls propose_responder_result transport_counts
        split: sum.splits)
  have er: "writes (new_calls (exchange u session) w) = 1"
    if "snd (exchange u session w) = Inr ()"
    using that False
    by (auto simp: exchange_responder_calls exchange_responder_result transport_counts
        split: sum.splits)
  from False p e f pr er show ?thesis by simp
qed

theorem stage_transport_operations_witness:
  "snd (propose concat_utils None (initiator_world [])) = Inr 0
   \<and> reads (new_calls (propose concat_utils None) (initiator_world [])) = 0
   \<and> writes (new_calls (propose concat_utils None) (initiator_world [])) = 1
   \<and> snd (propose concat_utils None (responder_world [[1, 11, 110, 1]])) = Inr 0
   \<and> reads (new_calls (propose concat_utils None) (responder_world [[1, 11, 110, 1]])) = 1
   \<and> writes (new_calls (propose concat_utils None) (responder_world [[1, 11, 110, 1]])) = 0"
proof -
  have i: "isInitiator (this (initiator_world []))"
    by (simp add: initiator_world_def new_Handshake_def)
  have r: "snd (propose concat_utils None (initiator_world [])) = Inr 0"
    by (simp add: propose_def prog_defs example_defs Let_def)
  have i': "\<not> isInitiator (this (responder_world [[1, 11, 110, 1]]))"
    by (simp add: responder_world_def new_Handshake_def)
  have r': "snd (propose concat_utils None (responder_world [[1, 11, 110, 1]])) = Inr 0"
    by (simp add: propose_def prog_defs example_defs Let_def)
  from stage_transport_operations
         [where w = "initiator_world []" and u = concat_utils and earlyData = None
            and session = 0]
       stage_transport_operations
         [where w = "responder_world [[1, 11, 110, 1]]" and u = concat_utils
            and earlyData = None and session = 0]
       i r i' r'
  show ?thesis by simp
qed

text \<open>
  The claim as stated fails when the XX layer throws: with an XX implementation
  whose \<open>sendMessage\<close> throws, \<open>propose\<close> on the initiator throws that
  error and has performed no transport operation at all.
\<close>

theorem stage_transport_operations_counterexample:
  "snd (propose concat_utils None failing_world) = Inl (Error ''Session invalid.'')
   \<and> filter is_LP (new_calls (propose concat_utils None) failing_world) = []"
  by (simp add: propose_def prog_defs example_defs failing_xx_def failing_world_def
      Let_def new_calls_def)

text \<open>
  C1 (as amended). In \<open>finish\<close>, when \<open>isInitiator\<close> is true, message 3 is run
  with the empty buffer as its handshake payload; \<open>finish\<close> signs nothing and
  builds no payload.
\<close>

theorem finish_initiator_payload:
  assumes "isInitiator (this w)"
  shows "filter is_payload (new_calls (finish u session) w) = [SendMessage session []]"
  using assms by (simp add: finish_initiator_calls split: sum.split)

theorem finish_initiator_payload_witness:
  "isInitiator (this (initiator_before_finish [[1, 22, 110, 2]]))
   \<and> filter is_payload
       (new_calls (finish concat_utils 0) (initiator_before_finish [[1, 22, 110, 2]])) =
       [SendMessage 0 []]"
proof -
  have i: "isInitiator (this (initiator_before_finish [[1, 22, 110, 2]]))"
    by (simp add: initiator_before_finish_def initiator_before_exchange_def
        propose_def exchange_def prog_defs example_defs Let_def)
  from finish_initiator_payload [OF i, where u = concat_utils and session = 0] i
  show ?thesis by simp
qed

text \<open>
  The claim as stated fails on an initiator that has run \<open>propose\<close> and
  \<open>exchange\<close>: \<open>finish\<close> hands the XX layer the empty payload, which is not
  the initiator's signed identity payload, and writes the resulting frame.
\<close>

theorem finish_initiator_payload_counterexample:
  "new_calls (finish concat_utils 0) (initiator_before_finish [[1, 22, 110, 2]]) =
     [SendMessage 0 [], WriteLP [], Logger ''Stage 2 - Initiator sent message.'']
   \<and> createHandshakePayload concat_utils (publicKey keysA)
       (signPayload concat_utils (privateKey keysA)
          (getHandshakePayload concat_utils (publicKey keysA))) None None \<noteq> []"
  by (simp add: initiator_before_finish_def initiator_before_exchange_def
      propose_def exchange_def finish_def prog_defs example_defs Let_def new_calls_def)

text \<open>
  C2. The payload a peer sends should embed that peer's own static public key
  with the signature over it. The responder B (own public key \<open>[2]\<close>, remote
  public key \<open>[1]\<close>) signs its own key in \<open>exchange\<close>, but builds the payload
  with the remote key \<open>[1]\<close> as identity key, and sends that.
\<close>

theorem exchange_responder_payload_key:
  "publicKey (staticKeys (this (responder_before_exchange [[1, 11, 110, 1]]))) = [2]
   \<and> remotePublicKey (this (responder_before_exchange [[1, 11, 110, 1]])) = [1]
   \<and> filter is_payload
       (new_calls (exchange concat_utils 0) (responder_before_exchange [[1, 11, 110, 1]])) =
       [SignPayload [22] [110, 2],
        CreateHandshakePayload [1] [22, 110, 2] None None,
        SendMessage 0 (createHandshakePayload concat_utils [1] [22, 110, 2] None None)]"
  by (simp add: responder_before_exchange_def
      propose_def exchange_def prog_defs example_defs Let_def new_calls_def)

text \<open>
  C3 (as amended). In \<open>exchange\<close>, when \<open>isInitiator\<close> is true, the frame read
  from the connection is decoded and handed to \<open>xx.recvMessage\<close>, and the
  plaintext that comes back is dropped: the driver checks no signature. The
  call throws exactly when \<open>readLP\<close> or \<open>xx.recvMessage\<close> throws, with that
  error, and its calls are the read, the receive and the log line.
\<close>

theorem exchange_initiator_outcome:
  assumes "isInitiator (this w)"
  shows "snd (exchange u session w) =
           (case snd (readLP (connection (this w)) (wire w)) of
              Inl e \<Rightarrow> Inl e
            | Inr b \<Rightarrow>
                (case snd (recvMessage (xx (this w)) session (decodeMessageBuffer u b)
                             (heap w)) of
                   Inl e \<Rightarrow> Inl e
                 | Inr plaintext \<Rightarrow> Inr ()))
       \<and> new_calls (exchange u session) w =
           ReadLP #
           (case snd (readLP (connection (this w)) (wire w)) of
              Inl e \<Rightarrow> []
            | Inr b \<Rightarrow>
                RecvMessage session (decodeMessageBuffer u b) #
                (case snd (recvMessage (xx (this w)) session (decodeMessageBuffer u b)
                             (heap w)) of
                   Inl e \<Rightarrow> []
                 | Inr plaintext \<Rightarrow> [Logger ''Stage 1 - Initiator received the message.'']))"
  using assms exchange_initiator_result [of w u session] exchange_initiator_calls [of w u session]
  by simp

theorem exchange_initiator_outcome_witness:
  "isInitiator (this (initiator_before_exchange []))
   \<and> snd (exchange concat_utils 0 (initiator_before_exchange [])) =
       Inl (Error ''stream ended'')
   \<and> new_calls (exchange concat_utils 0) (initiator_before_exchange []) = [ReadLP]"
proof -
  have i: "isInitiator (this (initiator_before_exchange []))"
    by (simp add: initiator_before_exchange_def propose_def prog_defs example_defs Let_def)
  have c: "connection (this (initiator_before_exchange [])) = queue_connection"
    and w: "wire (initiator_before_exchange []) = \<lparr>inbox = [], outbox = [[1, 11, 110, 1]]\<rparr>"
    by (simp_all add: initiator_before_exchange_def propose_def prog_defs example_defs Let_def)
  from exchange_initiator_outcome [OF i, where u = concat_utils and session = 0] i c w
  show ?thesis by (simp add: queue_connection_def)
qed

text \<open>
  The claim as stated fails on a frame whose payload names B's identity key
  with a signature made by another key over another static key: the initiator's
  \<open>exchange\<close> returns normally.
\<close>

theorem exchange_initiator_outcome_counterexample:
  "forged_payload \<noteq>
     createHandshakePayload concat_utils (publicKey keysB)
       (signPayload concat_utils (privateKey keysB)
          (getHandshakePayload concat_utils (publicKey keysB))) None None
   \<and> snd (exchange concat_utils 0 (initiator_before_exchange [forged_payload])) = Inr ()
   \<and> new_calls (exchange concat_utils 0) (initiator_before_exchange [forged_payload]) =
       [ReadLP, RecvMessage 0 forged_payload,
        Logger ''Stage 1 - Initiator received the message.'']"
  by (simp add: initiator_before_exchange_def forged_payload_def
      propose_def exchange_def prog_defs example_defs Let_def new_calls_def)

text \<open>
  C7. Where a payload is signed (by the initiator in \<open>propose\<close>, once the
  session exists, and by the responder in \<open>exchange\<close>) there is one signing
  call: with the peer's own static private key, over \<open>getHandshakePayload\<close> of
  its own static public key. And \<open>propose\<close>, in either role, returns the
  session that \<open>initSession\<close> created: it does so whenever the calls it makes
  return, and otherwise throws the first error thrown.
\<close>

theorem signing_and_returned_session:
  "filter is_sign (new_calls (propose u earlyData) w) =
     (case snd (initSession (xx (this w)) (isInitiator (this w)) (prologue (this w))
                  (staticKeys (this w)) (remotePublicKey (this w)) (heap w)) of
        Inl e \<Rightarrow> []
      | Inr ns \<Rightarrow>
          if isInitiator (this w)
          then [SignPayload (privateKey (staticKeys (this w)))
                  (getHandshakePayload u (publicKey (staticKeys (this w))))]
          else [])
   \<and> filter is_sign (new_calls (exchange u session) w) =
       (if isInitiator (this w) then []
        else [SignPayload (privateKey (staticKeys (this w)))
                (getHandshakePayload u (publicKey (staticKeys (this w))))])
   \<and> snd (propose u earlyData w) =
       (case initSession (xx (this w)) (isInitiator (this w)) (prologue (this w))
               (staticKeys (this w)) (remotePublicKey (this w)) (heap w) of
          (hp, Inl e) \<Rightarrow> Inl e
        | (hp, Inr ns) \<Rightarrow>
            if isInitiator (this w)
            then (case snd (sendMessage (xx (this w)) ns
                              (createHandshakePayload u (publicKey (staticKeys (this w)))
                                 (signPayload u (privateKey (staticKeys (this w)))
                                    (getHandshakePayload u (publicKey (staticKeys (this w)))))
                                 earlyData (Some (privateKey (staticKeys (this w)))))
                              hp) of
                    Inl e \<Rightarrow> Inl e
                  | Inr mb \<Rightarrow>
                      (case snd (writeLP (connection (this w)) (encodeMessageBuffer u mb)
                                   (wire w)) of
                         Inl e \<Rightarrow> Inl e
                       | Inr x \<Rightarrow> Inr ns))
            else (case snd (readLP (connection (this w)) (wire w)) of
                    Inl e \<Rightarrow> Inl e
                  | Inr b \<Rightarrow>
                      (case snd (recvMessage (xx (this w)) ns (decodeMessageBuffer u b) hp) of
                         Inl e \<Rightarrow> Inl e
                       | Inr p \<Rightarrow> Inr ns)))"
proof (cases "isInitiator (this w)")
  case True
  then show ?thesis
    by (simp add: propose_initiator_calls exchange_initiator_calls propose_initiator_result
        split_beta split: sum.split)
next
  case False
  then show ?thesis
    by (simp add: propose_responder_calls exchange_responder_calls propose_responder_result
        split_beta split: sum.split)
qed

theorem signing_and_returned_session_witness:
  "snd (propose concat_utils None (initiator_world [])) = Inr 0
   \<and> snd (initSession clear_xx True [] keysA [2] empty_heap) = Inr 0
   \<and> filter is_sign (new_calls (propose concat_utils None) (initiator_world [])) =
       [SignPayload [11] (getHandshakePayload concat_utils [1])]
   \<and> filter is_sign
       (new_calls (exchange concat_utils 0) (responder_before_exchange [[1, 11, 110, 1]])) =
       [SignPayload [22] (getHandshakePayload concat_utils [2])]"
proof -
  have r: "snd (propose concat_utils None (initiator_world [])) = Inr 0"
    by (simp add: propose_def prog_defs example_defs Let_def)
  have a: "this (initiator_world []) =
             new_Handshake clear_xx XX True [2] [] keysA queue_connection None"
    "heap (initiator_world []) = empty_heap"
    by (simp_all add: initiator_world_def keysB_def)
  have b: "this (responder_before_exchange [[1, 11, 110, 1]]) =
             new_Handshake clear_xx XX False [1] [] keysB queue_connection None"
    by (simp add: responder_before_exchange_def propose_def prog_defs example_defs Let_def)
  have s: "snd (initSession clear_xx i p k rk hp) = Inr 0" for i p k rk hp
    by (simp add: clear_xx_def)
  from signing_and_returned_session
         [where w = "initiator_world []" and u = concat_utils and earlyData = None
            and session = 0]
       signing_and_returned_session
         [where w = "responder_before_exchange [[1, 11, 110, 1]]" and u = concat_utils
            and earlyData = None and session = 0]
       r a b s
  show ?thesis by (simp add: new_Handshake_def keysA_def keysB_def)
qed

text \<open>
  C10. On the responder, \<open>propose\<close> does not depend on \<open>earlyData\<close>: for any two
  values of the argument, absent or present, the whole outcome is the same (the
  calls made, the transport and the heap afterwards, the session returned or the
  error thrown), and nothing is sent: no write, no payload signed, built or
  handed to \<open>sendMessage\<close>.
\<close>

theorem propose_responder_ignores_earlyData:
  assumes "\<not> isInitiator (this w)"
  shows "propose u earlyData w = propose u earlyData' w
       \<and> writes (new_calls (propose u earlyData) w) = 0
       \<and> filter is_payload (new_calls (propose u earlyData) w) = []"
  using assms
  by (simp add: propose_responder propose_responder_calls transport_counts split: sum.split)

theorem propose_responder_ignores_earlyData_witness:
  "\<not> isInitiator (this (responder_world [[1, 11, 110, 1]]))
   \<and> propose concat_utils None (responder_world [[1, 11, 110, 1]]) =
       propose concat_utils (Some [5]) (responder_world [[1, 11, 110, 1]])
   \<and> snd (propose concat_utils (Some [5]) (responder_world [[1, 11, 110, 1]])) = Inr 0
   \<and> writes (new_calls (propose concat_utils None) (responder_world [[1, 11, 110, 1]])) = 0"
proof -
  have i: "\<not> isInitiator (this (responder_world [[1, 11, 110, 1]]))"
    by (simp add: responder_world_def new_Handshake_def)
  have r: "snd (propose concat_utils (Some [5]) (responder_world [[1, 11, 110, 1]])) = Inr 0"
    by (simp add: propose_def prog_defs example_defs Let_def)
  from propose_responder_ignores_earlyData
         [OF i, where u = concat_utils and earlyData = None and earlyData' = "Some [5]"] i r
  show ?thesis by simp
qed

end
